theory Spec2Isabelle
  imports Main "HOL-Library.Sublist"
begin

section \<open>Python values\<close>

text \<open>
  The data that flows through the field: \<open>None\<close>, integers, strings, lists and
  dictionaries with string keys (the JSON-like values a schema loads and dumps).
\<close>

datatype pyval =
    VNone
  | VInt int
  | VStr string
  | VList "pyval list"
  | VDict "(string \<times> pyval) list"

text \<open>A name between single quotes, as the interpreter's messages print it.\<close>

definition quoted :: "string \<Rightarrow> string" where
  "quoted n = [CHR 0x27] @ n @ [CHR 0x27]"

text \<open>Truthiness, as \<open>if x:\<close> tests it.\<close>

fun py_truthy :: "pyval \<Rightarrow> bool" where
  "py_truthy VNone = False"
| "py_truthy (VInt i) = (i \<noteq> 0)"
| "py_truthy (VStr s) = (s \<noteq> [])"
| "py_truthy (VList xs) = (xs \<noteq> [])"
| "py_truthy (VDict kvs) = (kvs \<noteq> [])"

text \<open>\<open>str(type(x))\<close> of a value.\<close>

fun py_type_str :: "pyval \<Rightarrow> string" where
  "py_type_str VNone = ''<class 'NoneType'>''"
| "py_type_str (VInt i) = ''<class 'int'>''"
| "py_type_str (VStr s) = ''<class 'str'>''"
| "py_type_str (VList xs) = ''<class 'list'>''"
| "py_type_str (VDict kvs) = ''<class 'dict'>''"

text \<open>The short type name, as the interpreter's AttributeError messages print it.\<close>

fun py_type_name :: "pyval \<Rightarrow> string" where
  "py_type_name VNone = ''NoneType''"
| "py_type_name (VInt i) = ''int''"
| "py_type_name (VStr s) = ''str''"
| "py_type_name (VList xs) = ''list''"
| "py_type_name (VDict kvs) = ''dict''"

text \<open>Decimal digits of an integer.\<close>

fun str_nat :: "nat \<Rightarrow> string" where
  "str_nat n =
     (if n < 10 then [char_of (48 + n)]
      else str_nat (n div 10) @ [char_of (48 + n mod 10)])"

declare str_nat.simps [simp del]

definition str_int :: "int \<Rightarrow> string" where
  "str_int i = (if i < 0 then CHR ''-'' # str_nat (nat (- i)) else str_nat (nat i))"

fun join :: "string \<Rightarrow> string list \<Rightarrow> string" where
  "join sep [] = []"
| "join sep [x] = x"
| "join sep (x # y # ys) = x @ sep @ join sep (y # ys)"

text \<open>
  \<open>repr\<close> of a string over printable ASCII: single quotes, unless the string holds a
  single quote and no double quote; the quote in use, the backslash, newline, carriage
  return and tab are escaped.
\<close>

definition repr_quote :: "string \<Rightarrow> char" where
  "repr_quote s =
     (if CHR 0x27 \<in> set s \<and> CHR 0x22 \<notin> set s then CHR 0x22 else CHR 0x27)"

definition repr_char :: "char \<Rightarrow> char \<Rightarrow> string" where
  "repr_char q c =
     (if c = CHR 0x5C then [CHR 0x5C, CHR 0x5C]
      else if c = q then [CHR 0x5C, q]
      else if c = CHR 0x0A then [CHR 0x5C, CHR ''n'']
      else if c = CHR 0x0D then [CHR 0x5C, CHR ''r'']
      else if c = CHR 0x09 then [CHR 0x5C, CHR ''t'']
      else [c])"

definition repr_str :: "string \<Rightarrow> string" where
  "repr_str s = [repr_quote s] @ concat (map (repr_char (repr_quote s)) s) @ [repr_quote s]"

fun py_repr :: "pyval \<Rightarrow> string" where
  "py_repr VNone = ''None''"
| "py_repr (VInt i) = str_int i"
| "py_repr (VStr s) = repr_str s"
| "py_repr (VList xs) = ''['' @ join '', '' (map py_repr xs) @ '']''"
| "py_repr (VDict kvs) =
     ''{'' @ join '', '' (map (\<lambda>kv. repr_str (fst kv) @ '': '' @ py_repr (snd kv)) kvs) @ ''}''"

text \<open>\<open>str(x)\<close>, which is also what \<open>'{0}'.format(x)\<close> inserts.\<close>

definition py_str :: "pyval \<Rightarrow> string" where
  "py_str v = (case v of VStr s \<Rightarrow> s | _ \<Rightarrow> py_repr v)"

section \<open>Exceptions\<close>

text \<open>
  What a callable can raise. \<open>ValidationError\<close> carries its messages (a string, a list
  or a dictionary); \<open>OtherException\<close> is any further subclass of \<open>Exception\<close>, with
  its class name and its \<open>str\<close>. \<open>BaseExceptionOnly\<close> is an instance of
  \<open>BaseException\<close> that is not an \<open>Exception\<close> (KeyboardInterrupt, SystemExit,
  GeneratorExit and their like), with its class name and its \<open>str\<close>.
\<close>

datatype exc =
    ValidationError pyval
  | TypeError string
  | AttributeError string
  | IndexError string
  | OtherException string string
  | BaseExceptionOnly string string

fun exc_str :: "exc \<Rightarrow> string" where
  "exc_str (ValidationError m) = py_str m"
| "exc_str (TypeError m) = m"
| "exc_str (AttributeError m) = m"
| "exc_str (IndexError m) = m"
| "exc_str (OtherException c m) = m"
| "exc_str (BaseExceptionOnly c m) = m"

text \<open>\<open>isinstance(e, Exception)\<close>: what an \<open>except Exception\<close> clause catches.\<close>

fun is_exception :: "exc \<Rightarrow> bool" where
  "is_exception (BaseExceptionOnly c m) = False"
| "is_exception e = True"

text \<open>\<open>for v in value\<close>: the elements a value yields, or the TypeError of a value
  that is not iterable. A string yields its characters, a dictionary its keys.\<close>

fun py_iter :: "pyval \<Rightarrow> exc + pyval list" where
  "py_iter (VList xs) = Inr xs"
| "py_iter (VStr s) = Inr (map (\<lambda>c. VStr [c]) s)"
| "py_iter (VDict kvs) = Inr (map (\<lambda>kv. VStr (fst kv)) kvs)"
| "py_iter v = Inl (TypeError (quoted (py_type_name v) @ '' object is not iterable''))"

section \<open>Schemas, fields and selectors of the host framework\<close>

text \<open>
  A context is a dictionary. An object's \<open>context\<close> attribute is \<open>None\<close> here when
  the object has no such attribute (\<open>hasattr\<close> is false, \<open>getattr\<close> takes its default).

  The host's callables run in a state \<open>'s\<close> they may read and change, and either
  raise (\<open>Inl\<close>) or return (\<open>Inr\<close>). A method of an object receives the object's
  \<open>context\<close> attribute as it stands when the method is called.

  Under marshmallow 3 \<open>load\<close> and \<open>dump\<close> return the bare result
  (\<open>load_mm3\<close>, \<open>dump_mm3\<close>); under marshmallow 2 they return a pair of the data and
  the errors (\<open>load_mm2\<close>, \<open>dump_mm2\<close>). \<open>MARSHMALLOW_3\<close> tells which host is
  installed, so only the methods of that host are ever called.
\<close>

type_synonym ctx = "string \<rightharpoonup> pyval"

record 's schema_obj =
  schema_class :: string
  schema_context :: "ctx option"
  load_mm3 :: "ctx option \<Rightarrow> pyval \<Rightarrow> 's \<Rightarrow> (exc + pyval) \<times> 's"
  load_mm2 :: "ctx option \<Rightarrow> pyval \<Rightarrow> 's \<Rightarrow> (exc + pyval \<times> pyval) \<times> 's"
  dump_mm3 :: "ctx option \<Rightarrow> pyval \<Rightarrow> 's \<Rightarrow> (exc + pyval) \<times> 's"
  dump_mm2 :: "ctx option \<Rightarrow> pyval \<Rightarrow> 's \<Rightarrow> (exc + pyval \<times> pyval) \<times> 's"

record 's field_obj =
  field_class :: string
  field_context :: "ctx option"
  deserialize :: "ctx option \<Rightarrow> pyval \<Rightarrow> string \<Rightarrow> pyval \<Rightarrow> 's \<Rightarrow> (exc + pyval) \<times> 's"

text \<open>
  What a selector can return: a schema instance, a field instance, a type (its name,
  the \<open>str\<close> of its own type, and what calling it with no arguments does), or any
  other value.
\<close>

datatype 's delegate =
    SchemaInst "'s schema_obj"
  | FieldInst "'s field_obj"
  | TypeObj string string "'s \<Rightarrow> (exc + 's delegate) \<times> 's"
  | Plain pyval

type_synonym 's selector = "pyval \<Rightarrow> pyval \<Rightarrow> 's \<Rightarrow> (exc + 's delegate) \<times> 's"

text \<open>\<open>isinstance(d, (Field, Schema))\<close>.\<close>

fun is_field_or_schema :: "'s delegate \<Rightarrow> bool" where
  "is_field_or_schema (SchemaInst sc) = True"
| "is_field_or_schema (FieldInst f) = True"
| "is_field_or_schema d = False"

text \<open>Truthiness and \<open>str(type(d))\<close> of a selected object. Instances of schemas and
  fields and types are true (none of them defines a length or a truth value).\<close>

fun delegate_truthy :: "'s delegate \<Rightarrow> bool" where
  "delegate_truthy (Plain v) = py_truthy v"
| "delegate_truthy d = True"

fun delegate_type_str :: "'s delegate \<Rightarrow> string" where
  "delegate_type_str (SchemaInst sc) = ''<class '' @ quoted (schema_class sc) @ ''>''"
| "delegate_type_str (FieldInst f) = ''<class '' @ quoted (field_class f) @ ''>''"
| "delegate_type_str (TypeObj n m c) = m"
| "delegate_type_str (Plain v) = py_type_str v"

text \<open>The AttributeError of reading attribute \<open>a\<close> of an object that lacks it.\<close>

fun no_attribute :: "'s delegate \<Rightarrow> string \<Rightarrow> exc" where
  "no_attribute (SchemaInst sc) a =
     AttributeError (quoted (schema_class sc) @ '' object has no attribute '' @ quoted a)"
| "no_attribute (FieldInst f) a =
     AttributeError (quoted (field_class f) @ '' object has no attribute '' @ quoted a)"
| "no_attribute (TypeObj n m c) a =
     AttributeError (''type object '' @ quoted n @ '' has no attribute '' @ quoted a)"
| "no_attribute (Plain v) a =
     AttributeError (quoted (py_type_name v) @ '' object has no attribute '' @ quoted a)"

section \<open>The polymorphic field\<close>

record 's polyfield =
  many :: bool
  serialization_schema_selector :: "'s selector option"
  deserialization_schema_selector :: "'s selector option"
  own_context :: "ctx option"

text \<open>\<open>getattr(self, 'context', {})\<close>.\<close>

definition self_context :: "'s polyfield \<Rightarrow> ctx" where
  "self_context self = (case own_context self of None \<Rightarrow> Map.empty | Some c \<Rightarrow> c)"

text \<open>\<open>d.context.update(getattr(self, 'context', {}))\<close> on a context \<open>c\<close>.\<close>

definition context_update :: "'s polyfield \<Rightarrow> ctx \<Rightarrow> ctx" where
  "context_update self c = c ++ self_context self"

text \<open>Calling a selector attribute: \<open>None\<close> is not callable.\<close>

definition call_selector :: "'s selector option \<Rightarrow> 's selector" where
  "call_selector sel v data s =
     (case sel of
        None \<Rightarrow> (Inl (TypeError (quoted ''NoneType'' @ '' object is not callable'')), s)
      | Some f \<Rightarrow> f v data s)"

subsection \<open>Deserialization\<close>

text \<open>The message of the ValidationError of a failed selection, for the value \<open>v\<close>
  and the \<open>class_type\<close> the handler computed (\<open>None\<close> prints as \<open>None\<close>).\<close>

definition selection_message :: "pyval \<Rightarrow> string option \<Rightarrow> string" where
  "selection_message v class_type =
     ''Unable to use schema. Ensure there is a deserialization_schema_selector''
     @ '' and that it returns a field or a schema when the function is passed in ''
     @ py_str v @ ''. This is the class I got. ''
     @ ''Make sure it is a field or a schema: ''
     @ (case class_type of None \<Rightarrow> ''None'' | Some c \<Rightarrow> c)"

text \<open>The \<open>except Exception\<close> handler of the selection. \<open>deserializer\<close> is the
  value of the variable when the exception was raised (\<open>None\<close>: still unassigned);
  \<open>class_type\<close> is set only \<open>if deserializer:\<close>.\<close>

definition class_type :: "'s delegate option \<Rightarrow> string option" where
  "class_type deserializer =
     (case deserializer of
        None \<Rightarrow> None
      | Some d \<Rightarrow> if delegate_truthy d then Some (delegate_type_str d) else None)"

definition selection_failure :: "pyval \<Rightarrow> string option \<Rightarrow> exc" where
  "selection_failure v ct = ValidationError (VStr (selection_message v ct))"

text \<open>\<open>if isinstance(deserializer, type): deserializer = deserializer()\<close>: a type is
  called with no arguments, anything else is left as it is.\<close>

definition instantiate :: "'s delegate \<Rightarrow> 's \<Rightarrow> (exc + 's delegate) \<times> 's" where
  "instantiate d s = (case d of TypeObj n m construct \<Rightarrow> construct s | _ \<Rightarrow> (Inr d, s))"

text \<open>The \<open>try\<close> block of the loop body and its handler: call the selector,
  instantiate a type, check the instance. The handler is \<open>except Exception\<close>: it
  turns an \<open>Exception\<close> (the TypeError of the check is one) into the ValidationError
  and lets anything else pass. When the constructor raises, the variable
  \<open>deserializer\<close> still holds the type.\<close>

definition select_deserializer ::
  "'s polyfield \<Rightarrow> pyval \<Rightarrow> pyval \<Rightarrow> 's \<Rightarrow> (exc + 's delegate) \<times> 's" where
  "select_deserializer self v data s =
     (case call_selector (deserialization_schema_selector self) v data s of
        (Inl e, s1) \<Rightarrow>
          if is_exception e
          then (Inl (selection_failure v (class_type (None :: 's delegate option))), s1)
          else (Inl e, s1)
      | (Inr d, s1) \<Rightarrow>
          (case instantiate d s1 of
             (Inl e, s2) \<Rightarrow>
               if is_exception e then (Inl (selection_failure v (class_type (Some d))), s2)
               else (Inl e, s2)
           | (Inr d', s2) \<Rightarrow>
               if is_field_or_schema d' then (Inr d', s2)
               else (Inl (selection_failure v (class_type (Some d'))), s2)))"

text \<open>\<open>deserializer.load(v)\<close> and the unwrapping of its result: marshmallow 3 returns
  the data (and raises on errors), marshmallow 2 returns the data and the errors, and
  the field raises a ValidationError of the errors when there are any.\<close>

definition schema_load ::
  "bool \<Rightarrow> 's schema_obj \<Rightarrow> ctx option \<Rightarrow> pyval \<Rightarrow> 's \<Rightarrow> (exc + pyval) \<times> 's" where
  "schema_load MARSHMALLOW_3 sc c v s =
     (if MARSHMALLOW_3 then load_mm3 sc c v s
      else
        (case load_mm2 sc c v s of
           (Inl e, s1) \<Rightarrow> (Inl e, s1)
         | (Inr (d, errors), s1) \<Rightarrow>
             if py_truthy errors then (Inl (ValidationError errors), s1)
             else (Inr d, s1)))"

text \<open>The rest of the loop body: merge the field's context into the delegate's when the
  delegate has one, then delegate to the field's \<open>deserialize\<close> or to the schema's
  \<open>load\<close>.\<close>

definition delegate_deserialize ::
  "bool \<Rightarrow> 's polyfield \<Rightarrow> 's delegate \<Rightarrow> pyval \<Rightarrow> string \<Rightarrow> pyval \<Rightarrow> 's
    \<Rightarrow> (exc + pyval) \<times> 's" where
  "delegate_deserialize MARSHMALLOW_3 self deserializer v attr data s =
     (case deserializer of
        FieldInst f \<Rightarrow>
          deserialize f (map_option (context_update self) (field_context f)) v attr data s
      | SchemaInst sc \<Rightarrow>
          schema_load MARSHMALLOW_3 sc (map_option (context_update self) (schema_context sc)) v s
      | _ \<Rightarrow> (Inl (no_attribute deserializer ''load''), s))"

text \<open>One round of the loop for the element \<open>v\<close>, with the current value of the
  variable \<open>data\<close>.\<close>

definition deserialize_element ::
  "bool \<Rightarrow> 's polyfield \<Rightarrow> string \<Rightarrow> pyval \<Rightarrow> pyval \<Rightarrow> 's \<Rightarrow> (exc + pyval) \<times> 's" where
  "deserialize_element MARSHMALLOW_3 self attr v data s =
     (case select_deserializer self v data s of
        (Inl e, s1) \<Rightarrow> (Inl e, s1)
      | (Inr d, s1) \<Rightarrow> delegate_deserialize MARSHMALLOW_3 self d v attr data s1)"

text \<open>The loop \<open>for v in value\<close>. Each round assigns the element's result to the
  variable \<open>data\<close>, which the next round passes on, and appends it to \<open>results\<close>.\<close>

fun deserialize_loop ::
  "bool \<Rightarrow> 's polyfield \<Rightarrow> string \<Rightarrow> pyval list \<Rightarrow> pyval \<Rightarrow> pyval list \<Rightarrow> 's
    \<Rightarrow> (exc + pyval list) \<times> 's" where
  "deserialize_loop MARSHMALLOW_3 self attr [] data results s = (Inr results, s)"
| "deserialize_loop MARSHMALLOW_3 self attr (v # vs) data results s =
     (case deserialize_element MARSHMALLOW_3 self attr v data s of
        (Inl e, s1) \<Rightarrow> (Inl e, s1)
      | (Inr data', s1) \<Rightarrow>
          deserialize_loop MARSHMALLOW_3 self attr vs data' (results @ [data']) s1)"

definition PolyField_deserialize ::
  "bool \<Rightarrow> 's polyfield \<Rightarrow> pyval \<Rightarrow> string \<Rightarrow> pyval \<Rightarrow> 's \<Rightarrow> (exc + pyval) \<times> 's" where
  "PolyField_deserialize MARSHMALLOW_3 self value attr data s =
     (case (if \<not> many self then Inr [value] else py_iter value) of
        Inl e \<Rightarrow> (Inl e, s)
      | Inr vs \<Rightarrow>
          (case deserialize_loop MARSHMALLOW_3 self attr vs data [] s of
             (Inl e, s1) \<Rightarrow> (Inl e, s1)
           | (Inr results, s1) \<Rightarrow>
               if many self then (Inr (VList results), s1)
               else
                 (case results of
                    [] \<Rightarrow> (Inl (IndexError ''list index out of range''), s1)
                  | r # rs \<Rightarrow> (Inr r, s1))))"

subsection \<open>Serialization\<close>

text \<open>\<open>schema.dump(v)\<close> and the unwrapping of its result: marshmallow 3 returns the
  data, marshmallow 2 a result whose \<open>data\<close> attribute is taken.\<close>

definition schema_dump ::
  "bool \<Rightarrow> 's schema_obj \<Rightarrow> ctx option \<Rightarrow> pyval \<Rightarrow> 's \<Rightarrow> (exc + pyval) \<times> 's" where
  "schema_dump MARSHMALLOW_3 sc c v s =
     (if MARSHMALLOW_3 then dump_mm3 sc c v s
      else
        (case dump_mm2 sc c v s of
           (Inl e, s1) \<Rightarrow> (Inl e, s1)
         | (Inr (d, errors), s1) \<Rightarrow> (Inr d, s1)))"

text \<open>Select, merge the context and dump, for one value: the steps both branches of
  \<open>_serialize\<close> perform. There is no check of what the selector returned: an object
  without a \<open>context\<close> or without a \<open>dump\<close> raises an AttributeError.\<close>

definition serialize_element ::
  "bool \<Rightarrow> 's polyfield \<Rightarrow> pyval \<Rightarrow> pyval \<Rightarrow> 's \<Rightarrow> (exc + pyval) \<times> 's" where
  "serialize_element MARSHMALLOW_3 self v obj s =
     (case call_selector (serialization_schema_selector self) v obj s of
        (Inl e, s1) \<Rightarrow> (Inl e, s1)
      | (Inr schema, s1) \<Rightarrow>
          (case schema of
             SchemaInst sc \<Rightarrow>
               (case schema_context sc of
                  None \<Rightarrow> (Inl (no_attribute schema ''context''), s1)
                | Some c \<Rightarrow> schema_dump MARSHMALLOW_3 sc (Some (context_update self c)) v s1)
           | FieldInst f \<Rightarrow>
               (case field_context f of
                  None \<Rightarrow> (Inl (no_attribute schema ''context''), s1)
                | Some c \<Rightarrow> (Inl (no_attribute schema ''dump''), s1))
           | _ \<Rightarrow> (Inl (no_attribute schema ''context''), s1)))"

fun serialize_loop ::
  "bool \<Rightarrow> 's polyfield \<Rightarrow> pyval list \<Rightarrow> pyval \<Rightarrow> pyval list \<Rightarrow> 's
    \<Rightarrow> (exc + pyval list) \<times> 's" where
  "serialize_loop MARSHMALLOW_3 self [] obj res s = (Inr res, s)"
| "serialize_loop MARSHMALLOW_3 self (v # vs) obj res s =
     (case serialize_element MARSHMALLOW_3 self v obj s of
        (Inl e, s1) \<Rightarrow> (Inl e, s1)
      | (Inr r, s1) \<Rightarrow> serialize_loop MARSHMALLOW_3 self vs obj (res @ [r]) s1)"

text \<open>The body of the \<open>try\<close> block.\<close>

definition serialize_body ::
  "bool \<Rightarrow> 's polyfield \<Rightarrow> pyval \<Rightarrow> pyval \<Rightarrow> 's \<Rightarrow> (exc + pyval) \<times> 's" where
  "serialize_body MARSHMALLOW_3 self value obj s =
     (if many self then
        (case py_iter value of
           Inl e \<Rightarrow> (Inl e, s)
         | Inr vs \<Rightarrow>
             (case serialize_loop MARSHMALLOW_3 self vs obj [] s of
                (Inl e, s1) \<Rightarrow> (Inl e, s1)
              | (Inr res, s1) \<Rightarrow> (Inr (VList res), s1)))
      else serialize_element MARSHMALLOW_3 self value obj s)"

text \<open>The message of the TypeError that the \<open>except Exception as err\<close> handler raises.\<close>

definition serialize_message :: "exc \<Rightarrow> pyval \<Rightarrow> string" where
  "serialize_message err value =
     ''Failed to serialize object. Error: '' @ exc_str err @ [CHR 0x0A]
     @ '' Ensure the serialization_schema_selector exists and ''
     @ '' returns a Schema and that schema''
     @ '' can serialize this value '' @ py_str value"

text \<open>\<open>_serialize\<close>: the test for \<open>None\<close>, the \<open>try\<close> block and its handler
  \<open>except Exception as err\<close>, which wraps an \<open>Exception\<close> into the TypeError and lets
  anything else pass.\<close>

definition PolyField_serialize ::
  "bool \<Rightarrow> 's polyfield \<Rightarrow> pyval \<Rightarrow> string \<Rightarrow> pyval \<Rightarrow> 's \<Rightarrow> (exc + pyval) \<times> 's" where
  "PolyField_serialize MARSHMALLOW_3 self value key obj s =
     (if value = VNone then (Inr VNone, s)
      else
        (case serialize_body MARSHMALLOW_3 self value obj s of
           (Inl err, s1) \<Rightarrow>
             if is_exception err then (Inl (TypeError (serialize_message err value)), s1)
             else (Inl err, s1)
         | (Inr r, s1) \<Rightarrow> (Inr r, s1)))"

section \<open>Example objects\<close>

text \<open>
  A small application to run the field on. The state is the list of the calls made so
  far; every callable appends its own call.
\<close>

datatype event =
    Selected pyval pyval
  | Constructed string
  | Loaded pyval
  | Deserialized pyval string pyval
  | Dumped pyval

definition ctx_get :: "ctx option \<Rightarrow> string \<Rightarrow> pyval" where
  "ctx_get c k =
     (case c of None \<Rightarrow> VNone | Some m \<Rightarrow> (case m k of None \<Rightarrow> VNone | Some x \<Rightarrow> x))"

definition radius_of :: "pyval \<Rightarrow> int option" where
  "radius_of v =
     (case v of
        VDict kvs \<Rightarrow> (case map_of kvs ''radius'' of Some (VInt r) \<Rightarrow> Some r | _ \<Rightarrow> None)
      | _ \<Rightarrow> None)"

definition bad_radius :: pyval where
  "bad_radius = VDict [(''radius'', VList [VStr ''Missing data for required field.''])]"

definition circle_result :: "ctx option \<Rightarrow> int \<Rightarrow> pyval" where
  "circle_result c r =
     VDict [(''radius'', VInt r), (''user'', ctx_get c ''user''), (''lang'', ctx_get c ''lang'')]"

text \<open>A schema that needs an integer \<open>radius\<close> and copies two keys of its context
  into what it returns.\<close>

definition circle_schema :: "event list schema_obj" where
  "circle_schema =
     \<lparr> schema_class = ''CircleSchema'',
       schema_context = Some [''user'' \<mapsto> VStr ''nobody'', ''lang'' \<mapsto> VStr ''en''],
       load_mm3 = (\<lambda>c v s.
         case radius_of v of
           Some r \<Rightarrow> (Inr (circle_result c r), s @ [Loaded v])
         | None \<Rightarrow> (Inl (ValidationError bad_radius), s @ [Loaded v])),
       load_mm2 = (\<lambda>c v s.
         case radius_of v of
           Some r \<Rightarrow> (Inr (circle_result c r, VDict []), s @ [Loaded v])
         | None \<Rightarrow> (Inr (VDict [], bad_radius), s @ [Loaded v])),
       dump_mm3 = (\<lambda>c v s.
         case radius_of v of
           Some r \<Rightarrow> (Inr (circle_result c r), s @ [Dumped v])
         | None \<Rightarrow> (Inl (OtherException ''KeyError'' (quoted ''radius'')), s @ [Dumped v])),
       dump_mm2 = (\<lambda>c v s.
         case radius_of v of
           Some r \<Rightarrow> (Inr (circle_result c r, VDict []), s @ [Dumped v])
         | None \<Rightarrow> (Inl (OtherException ''KeyError'' (quoted ''radius'')), s @ [Dumped v])) \<rparr>"

text \<open>A field that returns the value with the \<open>user\<close> of its context.\<close>

definition int_field :: "event list field_obj" where
  "int_field =
     \<lparr> field_class = ''Integer'',
       field_context = Some [''user'' \<mapsto> VStr ''nobody''],
       deserialize = (\<lambda>c v attr data s.
         (Inr (VDict [(''value'', v), (''user'', ctx_get c ''user'')]),
          s @ [Deserialized v attr data])) \<rparr>"

text \<open>
  A selector by the shape of the value: a dictionary goes to the circle schema, an
  integer to the field, \<open>'Circle'\<close> to the schema class, \<open>'Broken'\<close> to a class whose
  constructor raises, \<open>'dict'\<close> to the built-in type \<open>dict\<close>; any other string and any
  list are returned as they are, and \<open>None\<close> raises a KeyError.
\<close>

definition example_selector :: "event list selector" where
  "example_selector v data s =
     (let s1 = s @ [Selected v data] in
      case v of
        VNone \<Rightarrow> (Inl (OtherException ''KeyError'' ''None''), s1)
      | VInt i \<Rightarrow> (Inr (FieldInst int_field), s1)
      | VStr x \<Rightarrow>
          (if x = ''Circle'' then
             (Inr (TypeObj ''CircleSchema'' ''<class 'marshmallow.schema.SchemaMeta'>''
                (\<lambda>s'. (Inr (SchemaInst circle_schema), s' @ [Constructed ''CircleSchema'']))), s1)
           else if x = ''Broken'' then
             (Inr (TypeObj ''Broken'' ''<class 'type'>''
                (\<lambda>s'. (Inl (TypeError ''__init__() missing 1 required positional argument''),
                       s' @ [Constructed ''Broken'']))), s1)
           else if x = ''dict'' then
             (Inr (TypeObj ''dict'' ''<class 'type'>''
                (\<lambda>s'. (Inr (Plain (VDict [])), s' @ [Constructed ''dict'']))), s1)
           else (Inr (Plain v), s1))
      | VList xs \<Rightarrow> (Inr (Plain v), s1)
      | VDict kvs \<Rightarrow> (Inr (SchemaInst circle_schema), s1))"

definition example_field :: "bool \<Rightarrow> event list polyfield" where
  "example_field m =
     \<lparr> many = m,
       serialization_schema_selector = Some example_selector,
       deserialization_schema_selector = Some example_selector,
       own_context = Some [''user'' \<mapsto> VStr ''alice''] \<rparr>"

definition parent :: pyval where
  "parent = VDict [(''name'', VStr ''drawing'')]"

definition circle :: pyval where
  "circle = VDict [(''type'', VStr ''circle''), (''radius'', VInt 3)]"

definition square :: pyval where
  "square = VDict [(''type'', VStr ''square''), (''side'', VInt 2)]"

definition loaded_circle :: pyval where
  "loaded_circle = VDict [(''radius'', VInt 3), (''user'', VStr ''alice''), (''lang'', VStr ''en'')]"

definition first_number :: pyval where
  "first_number = VDict [(''value'', VInt 1), (''user'', VStr ''alice'')]"

definition second_number :: pyval where
  "second_number = VDict [(''value'', VInt 2), (''user'', VStr ''alice'')]"

text \<open>The exception of the circle schema's \<open>dump\<close> for a value without a radius.\<close>

definition key_error :: exc where
  "key_error = OtherException ''KeyError'' (quoted ''radius'')"

text \<open>A field whose selectors are interrupted from the keyboard, and a name with a
  backslash in it.\<close>

definition interrupt :: exc where
  "interrupt = BaseExceptionOnly ''KeyboardInterrupt'' []"

definition interrupted_field :: "bool \<Rightarrow> event list polyfield" where
  "interrupted_field m =
     \<lparr> many = m,
       serialization_schema_selector = Some (\<lambda>v obj s. (Inl interrupt, s @ [Selected v obj])),
       deserialization_schema_selector = Some (\<lambda>v data s. (Inl interrupt, s @ [Selected v data])),
       own_context = None \<rparr>"

definition odd_name :: pyval where
  "odd_name = VStr [CHR ''a'', CHR 0x5C, CHR ''b'']"

definition no_context :: exc where
  "no_context = AttributeError (quoted ''str'' @ '' object has no attribute '' @ quoted ''context'')"

section \<open>The loops\<close>

lemmas fixture_defs =
  example_field_def example_selector_def circle_schema_def int_field_def ctx_get_def
  radius_of_def bad_radius_def circle_result_def parent_def circle_def square_def
  loaded_circle_def call_selector_def context_update_def self_context_def map_add_def
  interrupt_def interrupted_field_def odd_name_def no_context_def

lemmas model_defs =
  PolyField_deserialize_def deserialize_element_def select_deserializer_def instantiate_def
  delegate_deserialize_def schema_load_def selection_failure_def class_type_def
  PolyField_serialize_def serialize_body_def serialize_element_def schema_dump_def

text \<open>With \<open>many\<close> false the call is one round of the loop.\<close>

lemma deserialize_single:
  assumes "\<not> many self"
  shows "PolyField_deserialize M self v attr data s = deserialize_element M self attr v data s"
proof (cases "deserialize_element M self attr v data s")
  case (Pair r s1)
  then show ?thesis using assms
    by (cases r) (simp_all add: PolyField_deserialize_def)
qed

text \<open>A loop over \<open>pre @ rest\<close> that gets through \<open>pre\<close> goes on with \<open>rest\<close>, the
  variable \<open>data\<close> holding the last result.\<close>

lemma deserialize_loop_append:
  assumes "deserialize_loop M self attr pre data res s = (Inr out, s')"
  shows "deserialize_loop M self attr (pre @ rest) data res s =
         deserialize_loop M self attr rest (if pre = [] then data else last out) out s'"
  using assms
proof (induction pre arbitrary: data res s)
  case Nil
  then show ?case by simp
next
  case (Cons v vs)
  obtain r s1 where step: "deserialize_element M self attr v data s = (r, s1)"
    by (cases "deserialize_element M self attr v data s")
  show ?case
  proof (cases r)
    case (Inl e)
    with step Cons.prems show ?thesis by simp
  next
    case (Inr d)
    with step Cons.prems
    have run: "deserialize_loop M self attr vs d (res @ [d]) s1 = (Inr out, s')" by simp
    have "vs = [] \<Longrightarrow> last out = d" using run by auto
    with Cons.IH [OF run] step Inr show ?thesis by auto
  qed
qed

text \<open>An element that fails aborts the whole call with its error.\<close>

lemma deserialize_element_error_aborts:
  assumes iter: "(if \<not> many self then Inr [value] else py_iter value) = Inr (pre @ v # vs)"
    and run: "deserialize_loop M self attr pre data [] s = (Inr out, s0)"
    and fail: "deserialize_element M self attr v (if pre = [] then data else last out) s0 = (Inl e, s1)"
  shows "PolyField_deserialize M self value attr data s = (Inl e, s1)"
proof -
  have "deserialize_loop M self attr (pre @ v # vs) data [] s = (Inl e, s1)"
    using deserialize_loop_append [OF run, of "v # vs"] fail by simp
  then show ?thesis using iter by (simp add: PolyField_deserialize_def)
qed

text \<open>A loop that returns has run one round per element, in order: the rounds' results
  are the new entries of \<open>results\<close>, and each round starts in the state the round before
  it left, with the result of the round before it in \<open>data\<close>.\<close>

lemma deserialize_loop_trace:
  assumes "deserialize_loop M self attr xs data res s = (Inr out, s')"
  shows "\<exists>ys ss. out = res @ ys \<and> length ys = length xs \<and> length ss = Suc (length xs) \<and>
           ss ! 0 = s \<and> ss ! length xs = s' \<and>
           (\<forall>i<length xs.
              deserialize_element M self attr (xs ! i) (if i = 0 then data else ys ! (i - 1)) (ss ! i)
                = (Inr (ys ! i), ss ! Suc i))"
  using assms
proof (induction xs arbitrary: data res s)
  case Nil
  then show ?case by (intro exI [of _ "[]"] exI [of _ "[s]"]) simp
next
  case (Cons v vs)
  obtain r s1 where step: "deserialize_element M self attr v data s = (r, s1)"
    by (cases "deserialize_element M self attr v data s")
  show ?case
  proof (cases r)
    case (Inl e)
    with step Cons.prems show ?thesis by simp
  next
    case (Inr d)
    with step Cons.prems
    have run: "deserialize_loop M self attr vs d (res @ [d]) s1 = (Inr out, s')" by simp
    from Cons.IH [OF run] obtain ys ss where
      out: "out = (res @ [d]) @ ys" and len: "length ys = length vs"
      and lss: "length ss = Suc (length vs)" and s0: "ss ! 0 = s1" and sn: "ss ! length vs = s'"
      and each: "\<forall>i<length vs.
              deserialize_element M self attr (vs ! i) (if i = 0 then d else ys ! (i - 1)) (ss ! i)
                = (Inr (ys ! i), ss ! Suc i)"
      by blast
    have all: "\<forall>i<length (v # vs).
              deserialize_element M self attr ((v # vs) ! i)
                (if i = 0 then data else (d # ys) ! (i - 1)) ((s # ss) ! i)
                = (Inr ((d # ys) ! i), (s # ss) ! Suc i)"
    proof (intro allI impI)
      fix i assume i: "i < length (v # vs)"
      show "deserialize_element M self attr ((v # vs) ! i)
                (if i = 0 then data else (d # ys) ! (i - 1)) ((s # ss) ! i)
                = (Inr ((d # ys) ! i), (s # ss) ! Suc i)"
      proof (cases i)
        case 0
        then show ?thesis using step Inr s0 by simp
      next
        case (Suc j)
        with i have "j < length vs" by simp
        with each have "deserialize_element M self attr (vs ! j)
                (if j = 0 then d else ys ! (j - 1)) (ss ! j) = (Inr (ys ! j), ss ! Suc j)"
          by blast
        then show ?thesis using Suc by (cases j) simp_all
      qed
    qed
    show ?thesis
      apply (intro exI [of _ "d # ys"] exI [of _ "s # ss"])
      using out len lss sn all by simp
  qed
qed

lemma serialize_loop_trace:
  assumes "serialize_loop M self xs obj res s = (Inr out, s')"
  shows "\<exists>ys ss. out = res @ ys \<and> length ys = length xs \<and> length ss = Suc (length xs) \<and>
           ss ! 0 = s \<and> ss ! length xs = s' \<and>
           (\<forall>i<length xs.
              serialize_element M self (xs ! i) obj (ss ! i) = (Inr (ys ! i), ss ! Suc i))"
  using assms
proof (induction xs arbitrary: res s)
  case Nil
  then show ?case by (intro exI [of _ "[]"] exI [of _ "[s]"]) simp
next
  case (Cons v vs)
  obtain r s1 where step: "serialize_element M self v obj s = (r, s1)"
    by (cases "serialize_element M self v obj s")
  show ?case
  proof (cases r)
    case (Inl e)
    with step Cons.prems show ?thesis by simp
  next
    case (Inr d)
    with step Cons.prems
    have run: "serialize_loop M self vs obj (res @ [d]) s1 = (Inr out, s')" by simp
    from Cons.IH [OF run] obtain ys ss where
      out: "out = (res @ [d]) @ ys" and len: "length ys = length vs"
      and lss: "length ss = Suc (length vs)" and s0: "ss ! 0 = s1" and sn: "ss ! length vs = s'"
      and each: "\<forall>i<length vs.
              serialize_element M self (vs ! i) obj (ss ! i) = (Inr (ys ! i), ss ! Suc i)"
      by blast
    have all: "\<forall>i<length (v # vs).
              serialize_element M self ((v # vs) ! i) obj ((s # ss) ! i)
                = (Inr ((d # ys) ! i), (s # ss) ! Suc i)"
    proof (intro allI impI)
      fix i assume i: "i < length (v # vs)"
      show "serialize_element M self ((v # vs) ! i) obj ((s # ss) ! i)
                = (Inr ((d # ys) ! i), (s # ss) ! Suc i)"
      proof (cases i)
        case 0
        then show ?thesis using step Inr s0 by simp
      next
        case (Suc j)
        with i have "j < length vs" by simp
        with each have "serialize_element M self (vs ! j) obj (ss ! j) = (Inr (ys ! j), ss ! Suc j)"
          by blast
        then show ?thesis using Suc by simp
      qed
    qed
    show ?thesis
      apply (intro exI [of _ "d # ys"] exI [of _ "s # ss"])
      using out len lss sn all by simp
  qed
qed

lemma serialize_loop_append:
  assumes "serialize_loop M self pre obj res s = (Inr out, s')"
  shows "serialize_loop M self (pre @ rest) obj res s = serialize_loop M self rest obj out s'"
  using assms
proof (induction pre arbitrary: res s)
  case Nil
  then show ?case by simp
next
  case (Cons v vs)
  obtain r s1 where step: "serialize_element M self v obj s = (r, s1)"
    by (cases "serialize_element M self v obj s")
  show ?case
  proof (cases r)
    case (Inl e)
    with step Cons.prems show ?thesis by simp
  next
    case (Inr d)
    with step Cons.prems
    have "serialize_loop M self vs obj (res @ [d]) s1 = (Inr out, s')" by simp
    from Cons.IH [OF this] step Inr show ?thesis by simp
  qed
qed

text \<open>What the \<open>try\<close> block of \<open>_serialize\<close> raises, the handler wraps when it is
  an \<open>Exception\<close> and lets pass when it is not.\<close>

lemma serialize_wraps:
  assumes "value \<noteq> VNone" and "serialize_body M self value obj s = (Inl err, s1)"
    and "is_exception err"
  shows "PolyField_serialize M self value key obj s
           = (Inl (TypeError (serialize_message err value)), s1)"
  using assms by (simp add: PolyField_serialize_def)

lemma serialize_passes:
  assumes "value \<noteq> VNone" and "serialize_body M self value obj s = (Inl err, s1)"
    and "\<not> is_exception err"
  shows "PolyField_serialize M self value key obj s = (Inl err, s1)"
  using assms by (simp add: PolyField_serialize_def)


lemma serialize_reaches:
  assumes "many self" and iter: "py_iter value = Inr (pre @ v # vs)"
    and run: "serialize_loop M self pre obj [] s = (Inr out, s0)"
  shows "PolyField_serialize M self value key obj s =
     (case serialize_element M self v obj s0 of
        (Inl err, s1) \<Rightarrow>
          if is_exception err then (Inl (TypeError (serialize_message err value)), s1)
          else (Inl err, s1)
      | (Inr r, s1) \<Rightarrow>
          (case serialize_loop M self vs obj (out @ [r]) s1 of
             (Inl err, s2) \<Rightarrow>
               if is_exception err then (Inl (TypeError (serialize_message err value)), s2)
               else (Inl err, s2)
           | (Inr res, s2) \<Rightarrow> (Inr (VList res), s2)))"
proof -
  have not_none: "value \<noteq> VNone" using iter by auto
  have whole: "serialize_loop M self (pre @ v # vs) obj [] s
                 = serialize_loop M self (v # vs) obj out s0"
    by (rule serialize_loop_append [OF run])
  obtain q s1 where step: "serialize_element M self v obj s0 = (q, s1)"
    by (cases "serialize_element M self v obj s0")
  show ?thesis
  proof (cases q)
    case (Inl err)
    with step whole iter assms(1) not_none show ?thesis
      by (simp add: PolyField_serialize_def serialize_body_def)
  next
    case (Inr r)
    obtain q2 s2 where rest: "serialize_loop M self vs obj (out @ [r]) s1 = (q2, s2)"
      by (cases "serialize_loop M self vs obj (out @ [r]) s1")
    with step Inr whole iter assms(1) not_none show ?thesis
      by (cases q2) (simp_all add: PolyField_serialize_def serialize_body_def)
  qed
qed

lemma serialize_single:
  assumes "\<not> many self" and "value \<noteq> VNone"
  shows "PolyField_serialize M self value key obj s =
     (case serialize_element M self value obj s of
        (Inl err, s1) \<Rightarrow>
          if is_exception err then (Inl (TypeError (serialize_message err value)), s1)
          else (Inl err, s1)
      | (Inr r, s1) \<Rightarrow> (Inr r, s1))"
  using assms by (simp add: PolyField_serialize_def serialize_body_def)

lemma py_iter_raises_exception:
  assumes "py_iter value = Inl err"
  shows "is_exception err"
  using assms by (cases "value") auto

section \<open>Null values\<close>

text \<open>
  C9. Serializing \<open>None\<close> returns \<open>None\<close> at once, whatever the \<open>many\<close> flag: the
  result and the state are the same for every field, so no selector, context merge or
  dump takes part (a selector that raises or changes the state would show).
\<close>

theorem serialize_none_short_circuit:
  "PolyField_serialize MARSHMALLOW_3 self VNone key obj s = (Inr VNone, s)"
  by (simp add: PolyField_serialize_def)

text \<open>
  C10. Deserialization has no such short cut. With \<open>many\<close> false a \<open>None\<close> value goes
  through one round of the loop like any other value: the selector is called with
  \<open>None\<close>, and when it raises an \<open>Exception\<close>, the call ends in the ValidationError
  of a failed selection, not in \<open>None\<close> (an exception that is no \<open>Exception\<close> leaves
  the call as it is).
\<close>

theorem deserialize_none_invokes_selector:
  assumes "\<not> many self"
  shows "PolyField_deserialize M self VNone attr data s
           = deserialize_element M self attr VNone data s
       \<and> (\<forall>e s1. call_selector (deserialization_schema_selector self) VNone data s = (Inl e, s1)
            \<longrightarrow> PolyField_deserialize M self VNone attr data s
                  = (if is_exception e then (Inl (selection_failure VNone None), s1)
                     else (Inl e, s1)))"
  using assms
  by (simp add: deserialize_single deserialize_element_def select_deserializer_def class_type_def)

theorem deserialize_none_invokes_selector_witness:
  "PolyField_deserialize True (example_field False) VNone ''shape'' parent []
     = (Inl (selection_failure VNone None), [Selected VNone parent])"
proof -
  have single: "\<not> many (example_field False)"
    by (simp add: example_field_def)
  have raises: "call_selector (deserialization_schema_selector (example_field False)) VNone parent []
                  = (Inl (OtherException ''KeyError'' ''None''), [Selected VNone parent])"
    by (simp add: example_field_def call_selector_def example_selector_def)
  have caught: "is_exception (OtherException ''KeyError'' ''None'')" by simp
  from deserialize_none_invokes_selector
    [OF single, of True "''shape''" parent "[]", THEN conjunct2, rule_format, OF raises] caught
  show ?thesis by simp
qed

section \<open>Delegation to a schema\<close>

text \<open>
  C2. With \<open>many\<close> false, when the selector returns a schema instance and the schema
  accepts the value, the call returns what the schema's \<open>load\<close> returns: the result
  itself under marshmallow 3, the data of the pair under marshmallow 2 (where a schema
  accepts a value when the errors of the pair are empty). The schema is called with its
  context after the merge of the field's.
\<close>

theorem deserialize_single_is_schema_load:
  assumes "\<not> many self"
    and "deserialization_schema_selector self = Some sel"
    and "sel v data s = (Inr (SchemaInst sc), s1)"
  shows "(M \<and> load_mm3 sc (map_option (context_update self) (schema_context sc)) v s1 = (Inr r, s2)
            \<longrightarrow> PolyField_deserialize M self v attr data s = (Inr r, s2))
       \<and> (\<not> M \<and> load_mm2 sc (map_option (context_update self) (schema_context sc)) v s1
                    = (Inr (r, errors), s2) \<and> \<not> py_truthy errors
            \<longrightarrow> PolyField_deserialize M self v attr data s = (Inr r, s2))"
  using assms
  by (simp add: deserialize_single deserialize_element_def select_deserializer_def
      call_selector_def instantiate_def delegate_deserialize_def schema_load_def)

theorem deserialize_single_is_schema_load_witness:
  "PolyField_deserialize True (example_field False) circle ''shape'' parent []
     = (Inr loaded_circle, [Selected circle parent, Loaded circle])
   \<and> PolyField_deserialize False (example_field False) circle ''shape'' parent []
     = (Inr loaded_circle, [Selected circle parent, Loaded circle])"
proof -
  have single: "\<not> many (example_field False)"
    by (simp add: example_field_def)
  have sel: "deserialization_schema_selector (example_field False) = Some example_selector"
    by (simp add: example_field_def)
  have chosen: "example_selector circle parent []
                  = (Inr (SchemaInst circle_schema), [Selected circle parent])"
    by (simp add: example_selector_def circle_def)
  have l3: "load_mm3 circle_schema
              (map_option (context_update (example_field False)) (schema_context circle_schema))
              circle [Selected circle parent]
            = (Inr loaded_circle, [Selected circle parent, Loaded circle])"
    by (simp add: fixture_defs)
  have l2: "load_mm2 circle_schema
              (map_option (context_update (example_field False)) (schema_context circle_schema))
              circle [Selected circle parent]
            = (Inr (loaded_circle, VDict []), [Selected circle parent, Loaded circle])"
    by (simp add: fixture_defs)
  have empty: "\<not> py_truthy (VDict [])" by simp
  from deserialize_single_is_schema_load [OF single sel chosen, where M = True] l3
  have a: "PolyField_deserialize True (example_field False) circle ''shape'' parent []
     = (Inr loaded_circle, [Selected circle parent, Loaded circle])" by blast
  from deserialize_single_is_schema_load [OF single sel chosen, where M = False] l2 empty
  have b: "PolyField_deserialize False (example_field False) circle ''shape'' parent []
     = (Inr loaded_circle, [Selected circle parent, Loaded circle])" by blast
  from a b show ?thesis by simp
qed

text \<open>
  C8. When the delegate selected for an element is a schema instance (returned by the
  selector, or made by calling the class the selector returned) and the schema's
  \<open>load\<close> reports validation errors, the call ends in a ValidationError that carries
  those errors as the schema gave them: under marshmallow 3 (and a strict marshmallow 2
  schema) the error \<open>load\<close> raises, under marshmallow 2 the errors of the pair. The
  element may be any element of the sequence (\<open>pre\<close> are the elements before it, which
  succeeded), or the single value.
\<close>

theorem nested_schema_errors_propagate:
  assumes "(if \<not> many self then Inr [value] else py_iter value) = Inr (pre @ v # vs)"
    and "deserialize_loop M self attr pre data [] s = (Inr out, s0)"
    and "select_deserializer self v (if pre = [] then data else last out) s0
           = (Inr (SchemaInst sc), s1)"
  shows "(M \<and> load_mm3 sc (map_option (context_update self) (schema_context sc)) v s1
                = (Inl (ValidationError errors), s2)
            \<longrightarrow> PolyField_deserialize M self value attr data s = (Inl (ValidationError errors), s2))
       \<and> (\<not> M \<and> load_mm2 sc (map_option (context_update self) (schema_context sc)) v s1
                    = (Inr (d, errors), s2) \<and> py_truthy errors
            \<longrightarrow> PolyField_deserialize M self value attr data s = (Inl (ValidationError errors), s2))
       \<and> (\<not> M \<and> load_mm2 sc (map_option (context_update self) (schema_context sc)) v s1
                    = (Inl (ValidationError errors), s2)
            \<longrightarrow> PolyField_deserialize M self value attr data s = (Inl (ValidationError errors), s2))
       \<and> (\<forall>sel. deserialization_schema_selector self = Some sel
              \<and> sel v (if pre = [] then data else last out) s0 = (Inr (SchemaInst sc), s1)
            \<longrightarrow> select_deserializer self v (if pre = [] then data else last out) s0
                  = (Inr (SchemaInst sc), s1))
       \<and> (\<forall>sel n m construct s'.
              deserialization_schema_selector self = Some sel
              \<and> sel v (if pre = [] then data else last out) s0 = (Inr (TypeObj n m construct), s')
              \<and> construct s' = (Inr (SchemaInst sc), s1)
            \<longrightarrow> select_deserializer self v (if pre = [] then data else last out) s0
                  = (Inr (SchemaInst sc), s1))"
proof -
  have "deserialize_element M self attr v (if pre = [] then data else last out) s0
          = schema_load M sc (map_option (context_update self) (schema_context sc)) v s1"
    using assms(3) by (simp add: deserialize_element_def delegate_deserialize_def)
  then have errors: "(M \<and> load_mm3 sc (map_option (context_update self) (schema_context sc)) v s1
                = (Inl (ValidationError errors), s2)
            \<longrightarrow> PolyField_deserialize M self value attr data s = (Inl (ValidationError errors), s2))
       \<and> (\<not> M \<and> load_mm2 sc (map_option (context_update self) (schema_context sc)) v s1
                    = (Inr (d, errors), s2) \<and> py_truthy errors
            \<longrightarrow> PolyField_deserialize M self value attr data s = (Inl (ValidationError errors), s2))
       \<and> (\<not> M \<and> load_mm2 sc (map_option (context_update self) (schema_context sc)) v s1
                    = (Inl (ValidationError errors), s2)
            \<longrightarrow> PolyField_deserialize M self value attr data s = (Inl (ValidationError errors), s2))"
    using deserialize_element_error_aborts [OF assms(1) assms(2)]
    by (auto simp add: schema_load_def)
  have direct: "\<forall>sel. deserialization_schema_selector self = Some sel
              \<and> sel v (if pre = [] then data else last out) s0 = (Inr (SchemaInst sc), s1)
            \<longrightarrow> select_deserializer self v (if pre = [] then data else last out) s0
                  = (Inr (SchemaInst sc), s1)"
    by (simp add: select_deserializer_def call_selector_def instantiate_def)
  have made: "\<forall>sel n m construct s'.
              deserialization_schema_selector self = Some sel
              \<and> sel v (if pre = [] then data else last out) s0 = (Inr (TypeObj n m construct), s')
              \<and> construct s' = (Inr (SchemaInst sc), s1)
            \<longrightarrow> select_deserializer self v (if pre = [] then data else last out) s0
                  = (Inr (SchemaInst sc), s1)"
    by (simp add: select_deserializer_def call_selector_def instantiate_def)
  from errors direct made show ?thesis by (intro conjI) simp_all
qed

theorem nested_schema_errors_propagate_witness:
  "PolyField_deserialize True (example_field True) (VList [circle, square]) ''shapes'' parent []
     = (Inl (ValidationError bad_radius),
        [Selected circle parent, Loaded circle, Selected square loaded_circle, Loaded square])
   \<and> PolyField_deserialize False (example_field True) (VList [circle, square]) ''shapes'' parent []
     = (Inl (ValidationError bad_radius),
        [Selected circle parent, Loaded circle, Selected square loaded_circle, Loaded square])
   \<and> PolyField_deserialize True (example_field False) square ''shape'' parent []
     = (Inl (ValidationError bad_radius), [Selected square parent, Loaded square])
   \<and> PolyField_deserialize True (example_field False) (VStr ''Circle'') ''shape'' parent []
     = (Inl (ValidationError bad_radius),
        [Selected (VStr ''Circle'') parent, Constructed ''CircleSchema'', Loaded (VStr ''Circle'')])
   \<and> PolyField_deserialize False (example_field False) (VStr ''Circle'') ''shape'' parent []
     = (Inl (ValidationError bad_radius),
        [Selected (VStr ''Circle'') parent, Constructed ''CircleSchema'', Loaded (VStr ''Circle'')])"
proof -
  let ?s0 = "[Selected circle parent, Loaded circle]"
  let ?s1 = "[Selected circle parent, Loaded circle, Selected square loaded_circle]"
  let ?s2 = "[Selected circle parent, Loaded circle, Selected square loaded_circle, Loaded square]"
  let ?t1 = "[Selected (VStr ''Circle'') parent, Constructed ''CircleSchema'']"
  let ?t2 = "[Selected (VStr ''Circle'') parent, Constructed ''CircleSchema'', Loaded (VStr ''Circle'')]"
  have iter: "(if \<not> many (example_field True) then Inr [VList [circle, square]]
               else py_iter (VList [circle, square])) = Inr ([circle] @ square # [])"
    by (simp add: example_field_def)
  have run3: "deserialize_loop True (example_field True) ''shapes'' [circle] parent [] []
                = (Inr [loaded_circle], ?s0)"
    by (simp add: model_defs fixture_defs)
  have run2: "deserialize_loop False (example_field True) ''shapes'' [circle] parent [] []
                = (Inr [loaded_circle], ?s0)"
    by (simp add: model_defs fixture_defs)
  have sel: "select_deserializer (example_field True) square
               (if [circle] = [] then parent else last [loaded_circle]) ?s0
             = (Inr (SchemaInst circle_schema), ?s1)"
    by (simp add: select_deserializer_def instantiate_def example_field_def call_selector_def
        example_selector_def square_def)
  have l3: "load_mm3 circle_schema
              (map_option (context_update (example_field True)) (schema_context circle_schema))
              square ?s1 = (Inl (ValidationError bad_radius), ?s2)"
    by (simp add: circle_schema_def radius_of_def square_def)
  have l2: "load_mm2 circle_schema
              (map_option (context_update (example_field True)) (schema_context circle_schema))
              square ?s1 = (Inr (VDict [], bad_radius), ?s2)"
    by (simp add: circle_schema_def radius_of_def square_def)
  have errs: "py_truthy bad_radius" by (simp add: bad_radius_def)
  from nested_schema_errors_propagate [OF iter run3 sel] l3
  have a: "PolyField_deserialize True (example_field True) (VList [circle, square]) ''shapes'' parent []
     = (Inl (ValidationError bad_radius), ?s2)" by blast
  from nested_schema_errors_propagate [OF iter run2 sel] l2 errs
  have b: "PolyField_deserialize False (example_field True) (VList [circle, square]) ''shapes'' parent []
     = (Inl (ValidationError bad_radius), ?s2)" by blast
  have iter1: "(if \<not> many (example_field False) then Inr [square] else py_iter square)
                 = Inr ([] @ square # [])"
    by (simp add: example_field_def)
  have run1: "deserialize_loop M (example_field False) ''shape'' [] parent [] [] = (Inr [], [])"
    for M by simp
  have sel1: "select_deserializer (example_field False) square
               (if [] = [] then parent else last []) []
             = (Inr (SchemaInst circle_schema), [Selected square parent])"
    by (simp add: select_deserializer_def instantiate_def example_field_def call_selector_def
        example_selector_def square_def)
  have l1: "load_mm3 circle_schema
              (map_option (context_update (example_field False)) (schema_context circle_schema))
              square [Selected square parent]
            = (Inl (ValidationError bad_radius), [Selected square parent, Loaded square])"
    by (simp add: circle_schema_def radius_of_def square_def)
  from nested_schema_errors_propagate [OF iter1 run1 sel1] l1
  have c: "PolyField_deserialize True (example_field False) square ''shape'' parent []
     = (Inl (ValidationError bad_radius), [Selected square parent, Loaded square])" by blast
  have iter_c: "(if \<not> many (example_field False) then Inr [VStr ''Circle'']
                 else py_iter (VStr ''Circle'')) = Inr ([] @ VStr ''Circle'' # [])"
    by (simp add: example_field_def)
  have sel_c: "select_deserializer (example_field False) (VStr ''Circle'')
               (if [] = [] then parent else last []) []
             = (Inr (SchemaInst circle_schema), ?t1)"
    by (simp add: select_deserializer_def instantiate_def example_field_def call_selector_def
        example_selector_def)
  have lc3: "load_mm3 circle_schema
              (map_option (context_update (example_field False)) (schema_context circle_schema))
              (VStr ''Circle'') ?t1 = (Inl (ValidationError bad_radius), ?t2)"
    by (simp add: circle_schema_def radius_of_def)
  have lc2: "load_mm2 circle_schema
              (map_option (context_update (example_field False)) (schema_context circle_schema))
              (VStr ''Circle'') ?t1 = (Inr (VDict [], bad_radius), ?t2)"
    by (simp add: circle_schema_def radius_of_def)
  from nested_schema_errors_propagate [OF iter_c run1 sel_c] lc3
  have d: "PolyField_deserialize True (example_field False) (VStr ''Circle'') ''shape'' parent []
     = (Inl (ValidationError bad_radius), ?t2)" by blast
  from nested_schema_errors_propagate [OF iter_c run1 sel_c] lc2 errs
  have e: "PolyField_deserialize False (example_field False) (VStr ''Circle'') ''shape'' parent []
     = (Inl (ValidationError bad_radius), ?t2)" by blast
  from a b c d e show ?thesis by simp
qed

section \<open>Selection failures\<close>

text \<open>
  C5. Whatever the selector returns for an element: a type is called with no arguments
  (anything else is taken as it is), and when the outcome is not a schema instance or a
  field instance, or the call of the type raises an \<open>Exception\<close>, the whole call ends in
  the ValidationError of a failed selection, whose message holds the \<open>str\<close> of the value
  \<open>v\<close>; so no result is returned for data that was not delegated. The element may be
  any element of the sequence (\<open>pre\<close> are the elements before it, which succeeded), or
  the single value.
\<close>

theorem invalid_delegate_is_selection_error:
  assumes "(if \<not> many self then Inr [value] else py_iter value) = Inr (pre @ v # vs)"
    and "deserialize_loop M self attr pre data [] s = (Inr out, s0)"
    and "call_selector (deserialization_schema_selector self) v
           (if pre = [] then data else last out) s0 = (Inr d, s1)"
  shows "instantiate (TypeObj n m construct) s1 = construct s1
       \<and> instantiate (Plain x) s1 = (Inr (Plain x), s1)
       \<and> (\<forall>d' s2. instantiate d s1 = (Inr d', s2) \<and> \<not> is_field_or_schema d'
            \<longrightarrow> PolyField_deserialize M self value attr data s
                  = (Inl (selection_failure v (class_type (Some d'))), s2))
       \<and> (\<forall>e s2. instantiate d s1 = (Inl e, s2)
            \<longrightarrow> PolyField_deserialize M self value attr data s
                  = (if is_exception e then (Inl (selection_failure v (class_type (Some d))), s2)
                     else (Inl e, s2)))
       \<and> (\<forall>ct. \<exists>a b. selection_failure v ct = ValidationError (VStr (a @ py_str v @ b)))"
proof -
  have named: "\<forall>ct. \<exists>a b. selection_failure v ct = ValidationError (VStr (a @ py_str v @ b))"
    unfolding selection_failure_def selection_message_def by (metis append.assoc)
  have inst: "instantiate (TypeObj n m construct) s1 = construct s1"
    "instantiate (Plain x) s1 = (Inr (Plain x), s1)"
    by (simp_all add: instantiate_def)
  have bad: "PolyField_deserialize M self value attr data s
               = (Inl (selection_failure v (class_type (Some d'))), s2)"
    if "instantiate d s1 = (Inr d', s2)" "\<not> is_field_or_schema d'" for d' s2
  proof -
    have "deserialize_element M self attr v (if pre = [] then data else last out) s0
            = (Inl (selection_failure v (class_type (Some d'))), s2)"
      using assms(3) that by (simp add: deserialize_element_def select_deserializer_def)
    then show ?thesis by (rule deserialize_element_error_aborts [OF assms(1) assms(2)])
  qed
  have raised: "PolyField_deserialize M self value attr data s
               = (if is_exception e then (Inl (selection_failure v (class_type (Some d))), s2)
                  else (Inl e, s2))"
    if "instantiate d s1 = (Inl e, s2)" for e s2
  proof -
    have "deserialize_element M self attr v (if pre = [] then data else last out) s0
            = (Inl (if is_exception e then selection_failure v (class_type (Some d)) else e), s2)"
      using assms(3) that by (simp add: deserialize_element_def select_deserializer_def)
    from deserialize_element_error_aborts [OF assms(1) assms(2) this]
    show ?thesis by simp
  qed
  from named inst bad raised show ?thesis by blast
qed

theorem invalid_delegate_is_selection_error_witness:
  "PolyField_deserialize True (example_field True) (VList [circle, VStr ''dict'']) ''shapes'' parent []
     = (Inl (selection_failure (VStr ''dict'') None),
        [Selected circle parent, Loaded circle, Selected (VStr ''dict'') loaded_circle,
         Constructed ''dict''])
   \<and> PolyField_deserialize True (example_field False) (VStr ''triangle'') ''shape'' parent []
     = (Inl (selection_failure (VStr ''triangle'') (Some ''<class 'str'>'')),
        [Selected (VStr ''triangle'') parent])
   \<and> PolyField_deserialize True (example_field False) (VStr ''Broken'') ''shape'' parent []
     = (Inl (selection_failure (VStr ''Broken'') (Some ''<class 'type'>'')),
        [Selected (VStr ''Broken'') parent, Constructed ''Broken''])
   \<and> (\<exists>a b. selection_failure (VStr ''triangle'') (Some ''<class 'str'>'')
              = ValidationError (VStr (a @ ''triangle'' @ b)))"
proof -
  let ?s0 = "[Selected circle parent, Loaded circle]"
  let ?s1 = "[Selected circle parent, Loaded circle, Selected (VStr ''dict'') loaded_circle]"
  let ?dict = "TypeObj ''dict'' ''<class 'type'>''
                (\<lambda>s'. (Inr (Plain (VDict [])), s' @ [Constructed ''dict'']))
               :: event list delegate"
  let ?broken = "TypeObj ''Broken'' ''<class 'type'>''
                (\<lambda>s'. (Inl (TypeError ''__init__() missing 1 required positional argument''),
                       s' @ [Constructed ''Broken'']))
               :: event list delegate"
  have iter: "(if \<not> many (example_field True) then Inr [VList [circle, VStr ''dict'']]
               else py_iter (VList [circle, VStr ''dict''])) = Inr ([circle] @ VStr ''dict'' # [])"
    by (simp add: example_field_def)
  have run: "deserialize_loop True (example_field True) ''shapes'' [circle] parent [] []
                = (Inr [loaded_circle], ?s0)"
    by (simp add: model_defs fixture_defs)
  have sel: "call_selector (deserialization_schema_selector (example_field True)) (VStr ''dict'')
               (if [circle] = [] then parent else last [loaded_circle]) ?s0 = (Inr ?dict, ?s1)"
    by (simp add: example_field_def call_selector_def example_selector_def)
  have made: "instantiate ?dict ?s1 = (Inr (Plain (VDict [])), ?s1 @ [Constructed ''dict''])"
    by (simp add: instantiate_def)
  have invalid: "\<not> is_field_or_schema (Plain (VDict []) :: event list delegate)" by simp
  have falsy: "class_type (Some (Plain (VDict []) :: event list delegate)) = None"
    by (simp add: class_type_def)
  from invalid_delegate_is_selection_error [OF iter run sel] made invalid
  have "PolyField_deserialize True (example_field True) (VList [circle, VStr ''dict'']) ''shapes'' parent []
     = (Inl (selection_failure (VStr ''dict'')
               (class_type (Some (Plain (VDict []) :: event list delegate)))),
        ?s1 @ [Constructed ''dict''])" by blast
  with falsy have a: "PolyField_deserialize True (example_field True) (VList [circle, VStr ''dict''])
       ''shapes'' parent []
     = (Inl (selection_failure (VStr ''dict'') None), ?s1 @ [Constructed ''dict''])" by simp
  have run0: "deserialize_loop True (example_field False) ''shape'' [] parent [] [] = (Inr [], [])"
    by simp
  have iter_t: "(if \<not> many (example_field False) then Inr [VStr ''triangle'']
                 else py_iter (VStr ''triangle'')) = Inr ([] @ VStr ''triangle'' # [])"
    by (simp add: example_field_def)
  have sel_t: "call_selector (deserialization_schema_selector (example_field False)) (VStr ''triangle'')
               (if [] = [] then parent else last []) []
               = (Inr (Plain (VStr ''triangle'')), [Selected (VStr ''triangle'') parent])"
    by (simp add: example_field_def call_selector_def example_selector_def)
  have kept: "instantiate (Plain (VStr ''triangle'') :: event list delegate)
                [Selected (VStr ''triangle'') parent]
              = (Inr (Plain (VStr ''triangle'')), [Selected (VStr ''triangle'') parent])"
    by (simp add: instantiate_def)
  have invalid_t: "\<not> is_field_or_schema (Plain (VStr ''triangle'') :: event list delegate)" by simp
  have type_t: "class_type (Some (Plain (VStr ''triangle'') :: event list delegate))
                  = Some ''<class 'str'>''"
    by (simp add: class_type_def)
  from invalid_delegate_is_selection_error [OF iter_t run0 sel_t] kept invalid_t
  have "PolyField_deserialize True (example_field False) (VStr ''triangle'') ''shape'' parent []
     = (Inl (selection_failure (VStr ''triangle'')
               (class_type (Some (Plain (VStr ''triangle'') :: event list delegate)))),
        [Selected (VStr ''triangle'') parent])" by blast
  with type_t have b: "PolyField_deserialize True (example_field False) (VStr ''triangle'') ''shape'' parent []
     = (Inl (selection_failure (VStr ''triangle'') (Some ''<class 'str'>'')),
        [Selected (VStr ''triangle'') parent])" by simp
  have iter_b: "(if \<not> many (example_field False) then Inr [VStr ''Broken'']
                 else py_iter (VStr ''Broken'')) = Inr ([] @ VStr ''Broken'' # [])"
    by (simp add: example_field_def)
  have sel_b: "call_selector (deserialization_schema_selector (example_field False)) (VStr ''Broken'')
               (if [] = [] then parent else last []) []
               = (Inr ?broken, [Selected (VStr ''Broken'') parent])"
    by (simp add: example_field_def call_selector_def example_selector_def)
  have failed: "instantiate ?broken [Selected (VStr ''Broken'') parent]
              = (Inl (TypeError ''__init__() missing 1 required positional argument''),
                 [Selected (VStr ''Broken'') parent, Constructed ''Broken''])"
    by (simp add: instantiate_def)
  have type_b: "class_type (Some ?broken) = Some ''<class 'type'>''"
    by (simp add: class_type_def)
  have caught: "is_exception (TypeError ''__init__() missing 1 required positional argument'')"
    by simp
  from invalid_delegate_is_selection_error [OF iter_b run0 sel_b] failed
  have "PolyField_deserialize True (example_field False) (VStr ''Broken'') ''shape'' parent []
     = (if is_exception (TypeError ''__init__() missing 1 required positional argument'')
        then (Inl (selection_failure (VStr ''Broken'') (class_type (Some ?broken))),
              [Selected (VStr ''Broken'') parent, Constructed ''Broken''])
        else (Inl (TypeError ''__init__() missing 1 required positional argument''),
              [Selected (VStr ''Broken'') parent, Constructed ''Broken'']))" by blast
  with caught
  have "PolyField_deserialize True (example_field False) (VStr ''Broken'') ''shape'' parent []
     = (Inl (selection_failure (VStr ''Broken'') (class_type (Some ?broken))),
        [Selected (VStr ''Broken'') parent, Constructed ''Broken''])" by simp
  with type_b have c: "PolyField_deserialize True (example_field False) (VStr ''Broken'') ''shape'' parent []
     = (Inl (selection_failure (VStr ''Broken'') (Some ''<class 'type'>'')),
        [Selected (VStr ''Broken'') parent, Constructed ''Broken''])" by simp
  from invalid_delegate_is_selection_error [OF iter_t run0 sel_t]
  have "\<exists>a b. selection_failure (VStr ''triangle'') (Some ''<class 'str'>'')
              = ValidationError (VStr (a @ py_str (VStr ''triangle'') @ b))" by blast
  then have d: "\<exists>a b. selection_failure (VStr ''triangle'') (Some ''<class 'str'>'')
              = ValidationError (VStr (a @ ''triangle'' @ b))" by (simp add: py_str_def)
  from a b c d show ?thesis by simp
qed

text \<open>
  C4. The message of a failed selection should name the type of what the selector
  produced, and say \<open>None\<close> only when nothing was produced. The handler tests
  \<open>if deserializer:\<close>, the truth value of the object and not whether one was produced:
  for the empty list, which the selector returns here, the message ends in \<open>None\<close>
  and the type of the list, \<open><class 'list'>\<close>, is nowhere in it.
\<close>

theorem falsy_delegate_reported_as_none:
  "PolyField_deserialize True (example_field False) (VList []) ''shape'' parent []
     = (Inl (ValidationError (VStr
          (''Unable to use schema. Ensure there is a deserialization_schema_selector''
           @ '' and that it returns a field or a schema when the function is passed in []''
           @ ''. This is the class I got. Make sure it is a field or a schema: None''))),
        [Selected (VList []) parent])
   \<and> example_selector (VList []) parent [] = (Inr (Plain (VList [])), [Selected (VList []) parent])
   \<and> delegate_type_str (Plain (VList []) :: event list delegate) = ''<class 'list'>''
   \<and> class_type (Some (Plain (VList []) :: event list delegate)) = None"
  by (simp add: model_defs deserialize_single selection_message_def py_str_def
      example_field_def example_selector_def call_selector_def)

section \<open>The second argument of the selector\<close>

text \<open>
  C1. Every element should be selected and deserialized with the \<open>data\<close> the call was
  given. The loop assigns each element's result to the variable \<open>data\<close> itself, so from
  the second element on the selector and the field delegate receive the result of the
  element before: here the second number is selected and deserialized with
  \<open>first_number\<close>, the result of the first, in the place of \<open>parent\<close>.
\<close>

theorem later_elements_receive_previous_result:
  "PolyField_deserialize True (example_field True) (VList [VInt 1, VInt 2]) ''numbers'' parent []
     = (Inr (VList [first_number, second_number]),
        [Selected (VInt 1) parent, Deserialized (VInt 1) ''numbers'' parent,
         Selected (VInt 2) first_number, Deserialized (VInt 2) ''numbers'' first_number])
   \<and> first_number \<noteq> parent"
  by (simp add: model_defs fixture_defs first_number_def second_number_def)

section \<open>The context\<close>



section \<open>Serialization failures\<close>

text \<open>
  C7, as the code has it. For a value that is not \<open>None\<close>, a failing \<open>_serialize\<close>
  ends in the exception \<open>err\<close> that its \<open>try\<close> block raised, wrapped when \<open>err\<close> is
  an \<open>Exception\<close> and as it is otherwise. The wrapper is a TypeError whose message holds
  \<open>str(err)\<close> and the \<open>str\<close> of the value given to \<open>_serialize\<close>, which with \<open>many\<close>
  is the whole sequence. The exception may come from the processing of the single value
  or of any element of the sequence (\<open>pre\<close> are the elements before it, which succeeded):
  from the selector, from a selected schema that has no context to merge into, or from
  \<open>dump\<close>; and from a value that cannot be iterated when \<open>many\<close> is set.
\<close>

theorem serialize_wraps_exceptions_only:
  assumes "value \<noteq> VNone"
  shows "(\<forall>e s1. PolyField_serialize M self value key obj s = (Inl e, s1)
            \<longrightarrow> (\<exists>err. serialize_body M self value obj s = (Inl err, s1)
                      \<and> e = (if is_exception err then TypeError (serialize_message err value)
                             else err)))
       \<and> (\<forall>err. \<exists>a b c. serialize_message err value = a @ exc_str err @ b @ py_str value @ c)
       \<and> (\<forall>err s1. \<not> many self \<and> serialize_element M self value obj s = (Inl err, s1)
            \<longrightarrow> PolyField_serialize M self value key obj s
                  = (if is_exception err then (Inl (TypeError (serialize_message err value)), s1)
                     else (Inl err, s1)))
       \<and> (\<forall>pre v vs out s0 err s1.
            many self \<and> py_iter value = Inr (pre @ v # vs)
            \<and> serialize_loop M self pre obj [] s = (Inr out, s0)
            \<and> serialize_element M self v obj s0 = (Inl err, s1)
            \<longrightarrow> PolyField_serialize M self value key obj s
                  = (if is_exception err then (Inl (TypeError (serialize_message err value)), s1)
                     else (Inl err, s1)))
       \<and> (\<forall>err. many self \<and> py_iter value = Inl err
            \<longrightarrow> PolyField_serialize M self value key obj s
                  = (Inl (TypeError (serialize_message err value)), s))
       \<and> (\<forall>v s0 err s1.
            call_selector (serialization_schema_selector self) v obj s0 = (Inl err, s1)
            \<longrightarrow> serialize_element M self v obj s0 = (Inl err, s1))
       \<and> (\<forall>v s0 sc s1.
            call_selector (serialization_schema_selector self) v obj s0 = (Inr (SchemaInst sc), s1)
            \<and> schema_context sc = None
            \<longrightarrow> serialize_element M self v obj s0
                  = (Inl (no_attribute (SchemaInst sc) ''context''), s1))
       \<and> (\<forall>v s0 sc c s1 err s2.
            call_selector (serialization_schema_selector self) v obj s0 = (Inr (SchemaInst sc), s1)
            \<and> schema_context sc = Some c
            \<and> schema_dump M sc (Some (context_update self c)) v s1 = (Inl err, s2)
            \<longrightarrow> serialize_element M self v obj s0 = (Inl err, s2))"
proof -
  have only: "\<exists>err. serialize_body M self value obj s = (Inl err, s1)
                  \<and> e = (if is_exception err then TypeError (serialize_message err value) else err)"
    if "PolyField_serialize M self value key obj s = (Inl e, s1)" for e s1
  proof (cases "serialize_body M self value obj s")
    case (Pair r s')
    then show ?thesis using that assms
      by (cases r) (auto simp add: PolyField_serialize_def split: if_splits)
  qed
  have holds: "\<exists>a b c. serialize_message err value = a @ exc_str err @ b @ py_str value @ c"
    for err
    unfolding serialize_message_def by (metis append.assoc append_Nil2)
  have single: "PolyField_serialize M self value key obj s
                  = (if is_exception err then (Inl (TypeError (serialize_message err value)), s1)
                     else (Inl err, s1))"
    if "\<not> many self" "serialize_element M self value obj s = (Inl err, s1)" for err s1
    using that serialize_single [OF that(1) assms] by simp
  have element: "PolyField_serialize M self value key obj s
                  = (if is_exception err then (Inl (TypeError (serialize_message err value)), s1)
                     else (Inl err, s1))"
    if "many self" "py_iter value = Inr (pre @ v # vs)"
      "serialize_loop M self pre obj [] s = (Inr out, s0)"
      "serialize_element M self v obj s0 = (Inl err, s1)" for pre v vs out s0 err s1
    using that(4) serialize_reaches [OF that(1) that(2) that(3)] by simp
  have iter: "PolyField_serialize M self value key obj s
                  = (Inl (TypeError (serialize_message err value)), s)"
    if "many self" "py_iter value = Inl err" for err
    using that py_iter_raises_exception [OF that(2)]
    by (intro serialize_wraps [OF assms]) (simp_all add: serialize_body_def)
  have sel: "serialize_element M self v obj s0 = (Inl err, s1)"
    if "call_selector (serialization_schema_selector self) v obj s0 = (Inl err, s1)"
    for v s0 err s1
    using that by (simp add: serialize_element_def)
  have ctx: "serialize_element M self v obj s0 = (Inl (no_attribute (SchemaInst sc) ''context''), s1)"
    if "call_selector (serialization_schema_selector self) v obj s0 = (Inr (SchemaInst sc), s1)"
      "schema_context sc = None" for v s0 sc s1
    using that by (simp add: serialize_element_def)
  have dump: "serialize_element M self v obj s0 = (Inl err, s2)"
    if "call_selector (serialization_schema_selector self) v obj s0 = (Inr (SchemaInst sc), s1)"
      "schema_context sc = Some c"
      "schema_dump M sc (Some (context_update self c)) v s1 = (Inl err, s2)"
    for v s0 sc c s1 err s2
    using that by (simp add: serialize_element_def)
  show ?thesis
    apply (intro conjI allI impI)
    subgoal for e s1 by (rule only)
    subgoal for err by (rule holds)
    subgoal for err s1 by (rule single) simp_all
    subgoal for pre v vs out s0 err s1 by (rule element [of pre v vs out s0]) simp_all
    subgoal for err by (rule iter) simp_all
    subgoal for v s0 err s1 by (rule sel)
    subgoal for v s0 sc s1 by (rule ctx) simp_all
    subgoal for v s0 sc c s1 err s2 by (rule dump [of v s0 sc s1 c]) simp_all
    done
qed

theorem serialize_wraps_exceptions_only_witness:
  "PolyField_serialize True (example_field True) (VList [circle, VNone]) ''shapes'' parent []
     = (Inl (TypeError (serialize_message (OtherException ''KeyError'' ''None'') (VList [circle, VNone]))),
        [Selected circle parent, Dumped circle, Selected VNone parent])
   \<and> PolyField_serialize False (example_field False) square ''shape'' parent []
     = (Inl (TypeError (serialize_message key_error square)),
        [Selected square parent, Dumped square])
   \<and> PolyField_serialize True (example_field True) (VInt 5) ''shapes'' parent []
     = (Inl (TypeError (serialize_message
               (TypeError (quoted ''int'' @ '' object is not iterable'')) (VInt 5))), [])
   \<and> PolyField_serialize True (interrupted_field False) circle ''shape'' parent []
     = (Inl interrupt, [Selected circle parent])
   \<and> (\<exists>a b c. serialize_message key_error square = a @ quoted ''radius'' @ b @ py_str square @ c)"
proof -
  have not_none: "VList [circle, VNone] \<noteq> VNone" "square \<noteq> VNone" "VInt 5 \<noteq> VNone"
    "circle \<noteq> VNone"
    by (simp_all add: square_def circle_def)
  have many: "many (example_field True)" "\<not> many (example_field False)"
    "\<not> many (interrupted_field False)"
    by (simp_all add: example_field_def interrupted_field_def)
  have caught: "is_exception (OtherException ''KeyError'' ''None'')" "is_exception key_error"
    "\<not> is_exception interrupt"
    by (simp_all add: key_error_def interrupt_def)
  have iter: "py_iter (VList [circle, VNone]) = Inr ([circle] @ VNone # [])"
    by simp
  have run: "serialize_loop True (example_field True) [circle] parent [] []
               = (Inr [loaded_circle], [Selected circle parent, Dumped circle])"
    by (simp add: model_defs fixture_defs)
  have raises: "call_selector (serialization_schema_selector (example_field True)) VNone parent
                  [Selected circle parent, Dumped circle]
                = (Inl (OtherException ''KeyError'' ''None''),
                   [Selected circle parent, Dumped circle, Selected VNone parent])"
    by (simp add: example_field_def call_selector_def example_selector_def)
  note many_case = serialize_wraps_exceptions_only
    [OF not_none(1), of True "example_field True" "''shapes''" parent "[]"]
  note element_raises = many_case
    [THEN conjunct2, THEN conjunct2, THEN conjunct2, THEN conjunct2, THEN conjunct2,
     THEN conjunct1, rule_format, OF raises]
  have "many (example_field True) \<and> py_iter (VList [circle, VNone]) = Inr ([circle] @ VNone # [])
        \<and> serialize_loop True (example_field True) [circle] parent [] []
            = (Inr [loaded_circle], [Selected circle parent, Dumped circle])
        \<and> serialize_element True (example_field True) VNone parent
              [Selected circle parent, Dumped circle]
            = (Inl (OtherException ''KeyError'' ''None''),
               [Selected circle parent, Dumped circle, Selected VNone parent])"
    by (intro conjI many(1) iter run element_raises)
  from many_case
    [THEN conjunct2, THEN conjunct2, THEN conjunct2, THEN conjunct1, rule_format, OF this]
    caught(1)
  have a: "PolyField_serialize True (example_field True) (VList [circle, VNone]) ''shapes'' parent []
     = (Inl (TypeError (serialize_message (OtherException ''KeyError'' ''None'') (VList [circle, VNone]))),
        [Selected circle parent, Dumped circle, Selected VNone parent])" by simp
  have chosen: "call_selector (serialization_schema_selector (example_field False)) square parent []
                  = (Inr (SchemaInst circle_schema), [Selected square parent])"
    by (simp add: example_field_def call_selector_def example_selector_def square_def)
  have sc: "schema_context circle_schema = Some [''user'' \<mapsto> VStr ''nobody'', ''lang'' \<mapsto> VStr ''en'']"
    by (simp add: circle_schema_def)
  have dump: "schema_dump False circle_schema
                (Some (context_update (example_field False)
                   [''user'' \<mapsto> VStr ''nobody'', ''lang'' \<mapsto> VStr ''en'']))
                square [Selected square parent]
              = (Inl key_error, [Selected square parent, Dumped square])"
    by (simp add: schema_dump_def circle_schema_def radius_of_def square_def key_error_def)
  note single_case = serialize_wraps_exceptions_only
    [OF not_none(2), of False "example_field False" "''shape''" parent "[]"]
  have "call_selector (serialization_schema_selector (example_field False)) square parent []
          = (Inr (SchemaInst circle_schema), [Selected square parent])
        \<and> schema_context circle_schema = Some [''user'' \<mapsto> VStr ''nobody'', ''lang'' \<mapsto> VStr ''en'']
        \<and> schema_dump False circle_schema
              (Some (context_update (example_field False)
                 [''user'' \<mapsto> VStr ''nobody'', ''lang'' \<mapsto> VStr ''en'']))
              square [Selected square parent]
            = (Inl key_error, [Selected square parent, Dumped square])"
    by (intro conjI chosen sc dump)
  note dump_raises = single_case
    [THEN conjunct2, THEN conjunct2, THEN conjunct2, THEN conjunct2, THEN conjunct2,
     THEN conjunct2, THEN conjunct2, rule_format, OF this]
  have "\<not> many (example_field False)
        \<and> serialize_element False (example_field False) square parent []
            = (Inl key_error, [Selected square parent, Dumped square])"
    by (intro conjI many(2) dump_raises)
  from single_case [THEN conjunct2, THEN conjunct2, THEN conjunct1, rule_format, OF this]
    caught(2)
  have b: "PolyField_serialize False (example_field False) square ''shape'' parent []
     = (Inl (TypeError (serialize_message key_error square)),
        [Selected square parent, Dumped square])" by simp
  have no_iter: "py_iter (VInt 5) = Inl (TypeError (quoted ''int'' @ '' object is not iterable''))"
    by simp
  from serialize_wraps_exceptions_only
    [OF not_none(3), of True "example_field True" "''shapes''" parent "[]",
     THEN conjunct2, THEN conjunct2, THEN conjunct2, THEN conjunct2, THEN conjunct1,
     rule_format, OF conjI [OF many(1) no_iter]]
  have c: "PolyField_serialize True (example_field True) (VInt 5) ''shapes'' parent []
     = (Inl (TypeError (serialize_message
               (TypeError (quoted ''int'' @ '' object is not iterable'')) (VInt 5))), [])" .
  note interrupted = serialize_wraps_exceptions_only
    [OF not_none(4), of True "interrupted_field False" "''shape''" parent "[]"]
  have "call_selector (serialization_schema_selector (interrupted_field False)) circle parent []
          = (Inl interrupt, [Selected circle parent])"
    by (simp add: interrupted_field_def call_selector_def)
  note selector_interrupted = interrupted
    [THEN conjunct2, THEN conjunct2, THEN conjunct2, THEN conjunct2, THEN conjunct2,
     THEN conjunct1, rule_format, OF this]
  from interrupted
    [THEN conjunct2, THEN conjunct2, THEN conjunct1, rule_format,
     OF conjI [OF many(3) selector_interrupted]] caught(3)
  have d: "PolyField_serialize True (interrupted_field False) circle ''shape'' parent []
     = (Inl interrupt, [Selected circle parent])" by simp
  from single_case [THEN conjunct2, THEN conjunct1, rule_format, of key_error]
  have e: "\<exists>a b c. serialize_message key_error square
                  = a @ quoted ''radius'' @ b @ py_str square @ c"
    by (simp add: key_error_def)
  from a b c d e show ?thesis by simp
qed

text \<open>
  Where the claim C7 fails as it is worded. The handler is \<open>except Exception\<close>, so a
  KeyboardInterrupt raised by the selector leaves \<open>_serialize\<close> as a KeyboardInterrupt,
  not as a TypeError. And the message names the value given to \<open>_serialize\<close>: when an
  element of a sequence fails, here a name with a backslash in it, the message holds the
  \<open>str\<close> of the list, where the element stands by its \<open>repr\<close> with the backslash
  doubled, and the \<open>str\<close> of the element itself is nowhere in it.
\<close>

theorem serialize_passes_keyboard_interrupt:
  "PolyField_serialize True (interrupted_field False) circle ''shape'' parent []
     = (Inl (BaseExceptionOnly ''KeyboardInterrupt'' []), [Selected circle parent])
   \<and> PolyField_serialize True (example_field True) (VList [odd_name]) ''names'' parent []
     = (Inl (TypeError (serialize_message no_context (VList [odd_name]))), [Selected odd_name parent])
   \<and> py_str odd_name = [CHR ''a'', CHR 0x5C, CHR ''b'']
   \<and> \<not> sublist (py_str odd_name) (serialize_message no_context (VList [odd_name]))"
proof -
  have a: "PolyField_serialize True (interrupted_field False) circle ''shape'' parent []
     = (Inl (BaseExceptionOnly ''KeyboardInterrupt'' []), [Selected circle parent])"
    by (simp add: model_defs fixture_defs)
  have b: "PolyField_serialize True (example_field True) (VList [odd_name]) ''names'' parent []
     = (Inl (TypeError (serialize_message no_context (VList [odd_name]))), [Selected odd_name parent])"
    by (simp add: model_defs example_field_def example_selector_def call_selector_def
        odd_name_def no_context_def)
  have c: "py_str odd_name = [CHR ''a'', CHR 0x5C, CHR ''b'']"
    by (simp add: py_str_def odd_name_def)
  have message: "serialize_message no_context (VList [odd_name])
    = ''Failed to serialize object. Error: '' @ quoted ''str''
      @ '' object has no attribute '' @ quoted ''context'' @ [CHR 0x0A]
      @ '' Ensure the serialization_schema_selector exists and ''
      @ '' returns a Schema and that schema''
      @ '' can serialize this value ['' @ [CHR 0x27, CHR ''a'', CHR 0x5C, CHR 0x5C, CHR ''b'', CHR 0x27]
      @ '']''"
    by (simp add: serialize_message_def no_context_def odd_name_def py_str_def repr_str_def
        repr_quote_def repr_char_def)
  have d: "\<not> sublist (py_str odd_name) (serialize_message no_context (VList [odd_name]))"
    unfolding c message quoted_def by (simp add: sublist_Cons_right)
  from a b c d show ?thesis by simp
qed

section \<open>Order and length of the results\<close>

text \<open>
  C3. With \<open>many\<close> set, a call that returns for a value that iterates as \<open>xs\<close> returns
  a list \<open>ys\<close> of the length of \<open>xs\<close>, and \<open>ys ! i\<close> is what the round for \<open>xs ! i\<close>
  returned: the rounds run in the order of \<open>xs\<close>, each in the state \<open>ss ! i\<close> the round
  before it left. This holds for deserialization and for serialization.
\<close>

theorem many_preserves_order_and_length:
  assumes "many self" and "py_iter value = Inr xs"
  shows "(\<forall>r s'. PolyField_deserialize M self value attr data s = (Inr r, s')
            \<longrightarrow> (\<exists>ys ss. r = VList ys \<and> length ys = length xs
                   \<and> length ss = Suc (length xs) \<and> ss ! 0 = s \<and> ss ! length xs = s'
                   \<and> (\<forall>i<length xs.
                        deserialize_element M self attr (xs ! i)
                          (if i = 0 then data else ys ! (i - 1)) (ss ! i)
                        = (Inr (ys ! i), ss ! Suc i))))
       \<and> (\<forall>r s'. PolyField_serialize M self value key obj s = (Inr r, s')
            \<longrightarrow> (\<exists>ys ss. r = VList ys \<and> length ys = length xs
                   \<and> length ss = Suc (length xs) \<and> ss ! 0 = s \<and> ss ! length xs = s'
                   \<and> (\<forall>i<length xs.
                        serialize_element M self (xs ! i) obj (ss ! i)
                        = (Inr (ys ! i), ss ! Suc i))))"
proof (intro conjI allI impI)
  fix r s'
  assume ret: "PolyField_deserialize M self value attr data s = (Inr r, s')"
  obtain q s1 where loop: "deserialize_loop M self attr xs data [] s = (q, s1)"
    by (cases "deserialize_loop M self attr xs data [] s")
  show "\<exists>ys ss. r = VList ys \<and> length ys = length xs
          \<and> length ss = Suc (length xs) \<and> ss ! 0 = s \<and> ss ! length xs = s'
          \<and> (\<forall>i<length xs.
               deserialize_element M self attr (xs ! i)
                 (if i = 0 then data else ys ! (i - 1)) (ss ! i)
               = (Inr (ys ! i), ss ! Suc i))"
  proof (cases q)
    case (Inl e)
    with ret loop assms show ?thesis by (simp add: PolyField_deserialize_def)
  next
    case (Inr out)
    with ret loop assms have r: "r = VList out" and s': "s' = s1"
      by (simp_all add: PolyField_deserialize_def)
    from deserialize_loop_trace [of M self attr xs data "[]" s out s1] loop Inr
    show ?thesis using r s' by simp
  qed
next
  fix r s'
  assume ret: "PolyField_serialize M self value key obj s = (Inr r, s')"
  have not_none: "value \<noteq> VNone" using assms(2) by auto
  obtain q s1 where loop: "serialize_loop M self xs obj [] s = (q, s1)"
    by (cases "serialize_loop M self xs obj [] s")
  show "\<exists>ys ss. r = VList ys \<and> length ys = length xs
          \<and> length ss = Suc (length xs) \<and> ss ! 0 = s \<and> ss ! length xs = s'
          \<and> (\<forall>i<length xs.
               serialize_element M self (xs ! i) obj (ss ! i) = (Inr (ys ! i), ss ! Suc i))"
  proof (cases q)
    case (Inl e)
    with ret loop assms not_none show ?thesis
      by (simp add: PolyField_serialize_def serialize_body_def split: if_splits)
  next
    case (Inr out)
    with ret loop assms not_none have r: "r = VList out" and s': "s' = s1"
      by (simp_all add: PolyField_serialize_def serialize_body_def)
    from serialize_loop_trace [of M self xs obj "[]" s out s1] loop Inr
    show ?thesis using r s' by simp
  qed
qed

theorem many_preserves_order_and_length_witness:
  "PolyField_deserialize True (example_field True) (VList [circle, VInt 2]) ''shapes'' parent []
     = (Inr (VList [loaded_circle, second_number]),
        [Selected circle parent, Loaded circle,
         Selected (VInt 2) loaded_circle, Deserialized (VInt 2) ''shapes'' loaded_circle])
   \<and> (\<exists>ys ss. VList [loaded_circle, second_number] = VList ys \<and> length ys = length [circle, VInt 2]
         \<and> length ss = Suc (length [circle, VInt 2]) \<and> ss ! 0 = []
         \<and> (\<forall>i<length [circle, VInt 2].
              deserialize_element True (example_field True) ''shapes'' ([circle, VInt 2] ! i)
                (if i = 0 then parent else ys ! (i - 1)) (ss ! i)
              = (Inr (ys ! i), ss ! Suc i)))
   \<and> PolyField_serialize True (example_field True) (VList [circle, circle]) ''shapes'' parent []
     = (Inr (VList [loaded_circle, loaded_circle]),
        [Selected circle parent, Dumped circle, Selected circle parent, Dumped circle])
   \<and> (\<exists>ys ss. VList [loaded_circle, loaded_circle] = VList ys \<and> length ys = length [circle, circle]
         \<and> length ss = Suc (length [circle, circle]) \<and> ss ! 0 = []
         \<and> (\<forall>i<length [circle, circle].
              serialize_element True (example_field True) ([circle, circle] ! i) parent (ss ! i)
              = (Inr (ys ! i), ss ! Suc i)))"
proof -
  have many: "many (example_field True)"
    by (simp add: example_field_def)
  have iter: "py_iter (VList [circle, VInt 2]) = Inr [circle, VInt 2]"
    "py_iter (VList [circle, circle]) = Inr [circle, circle]"
    by simp_all
  have de: "PolyField_deserialize True (example_field True) (VList [circle, VInt 2]) ''shapes'' parent []
     = (Inr (VList [loaded_circle, second_number]),
        [Selected circle parent, Loaded circle,
         Selected (VInt 2) loaded_circle, Deserialized (VInt 2) ''shapes'' loaded_circle])"
    by (simp add: model_defs fixture_defs second_number_def)
  have ser: "PolyField_serialize True (example_field True) (VList [circle, circle]) ''shapes'' parent []
     = (Inr (VList [loaded_circle, loaded_circle]),
        [Selected circle parent, Dumped circle, Selected circle parent, Dumped circle])"
    by (simp add: model_defs fixture_defs)
  note ordered = many_preserves_order_and_length [OF many]
  from ordered [OF iter(1), of True "''shapes''" parent "[]" "''shapes''" parent,
      THEN conjunct1, rule_format, OF de]
  have a: "\<exists>ys ss. VList [loaded_circle, second_number] = VList ys \<and> length ys = length [circle, VInt 2]
         \<and> length ss = Suc (length [circle, VInt 2]) \<and> ss ! 0 = []
         \<and> (\<forall>i<length [circle, VInt 2].
              deserialize_element True (example_field True) ''shapes'' ([circle, VInt 2] ! i)
                (if i = 0 then parent else ys ! (i - 1)) (ss ! i)
              = (Inr (ys ! i), ss ! Suc i))"
    by blast
  from ordered [OF iter(2), of True "''shapes''" parent "[]" "''shapes''" parent,
      THEN conjunct2, rule_format, OF ser]
  have b: "\<exists>ys ss. VList [loaded_circle, loaded_circle] = VList ys \<and> length ys = length [circle, circle]
         \<and> length ss = Suc (length [circle, circle]) \<and> ss ! 0 = []
         \<and> (\<forall>i<length [circle, circle].
              serialize_element True (example_field True) ([circle, circle] ! i) parent (ss ! i)
              = (Inr (ys ! i), ss ! Suc i))"
    by blast
  from de a ser b show ?thesis by blast
qed

end
